theory Spec2Isabelle
  imports Main "HOL-Library.Word" "HOL-Library.AList"
begin

unbundle bit_operations_syntax

section \<open>The employee service of \<^verbatim>\<open>main.go\<close>\<close>

text \<open>
  \<^verbatim>\<open>main.go\<close> connects to a document store, registers four fiber handlers on the
  collection \<^verbatim>\<open>employees\<close> and listens on port 3000. The handlers are embedded below
  statement by statement. What they call in fiber and in the mongo driver is outside the
  repository; it is modelled in the subsections marked \<^emph>\<open>library\<close>, with the failures
  of the store and of the startup calls given as explicit inputs (\<open>driver\<close>, \<open>startup\<close>).
\<close>

subsection \<open>Errors and identifiers (library)\<close>

text \<open>
  Go errors are values. \<open>ErrNoDocuments\<close> is the driver's sentinel the update handler
  compares against; \<open>Failure msg\<close> is any other error of the store or of a parser.
\<close>

datatype error =
    ErrNoDocuments
  | ErrInvalidHex
  | InvalidByteError char
  | DecodeError string
  | DuplicateKey
  | Failure string

text \<open>
  A string handed to the response or to the logger: a literal of the program, or the text
  \<^verbatim>\<open>err.Error()\<close> of an error.
\<close>

datatype message = Literal string | ErrorText error

text \<open>
  \<^verbatim>\<open>primitive.ObjectID\<close> is \<^verbatim>\<open>[12]byte\<close>, kept here as the 96-bit word of its bytes
  in big-endian order. \<^verbatim>\<open>float64\<close> fields are carried, never computed with, and kept as
  their 64 bits.
\<close>

type_synonym ObjectID = "96 word"
type_synonym float64 = "64 word"

definition fromHexChar :: "char \<Rightarrow> nat option" where
  "fromHexChar c =
     (let n = (of_char c :: nat) in
      if 48 \<le> n \<and> n \<le> 57 then Some (n - 48)
      else if 97 \<le> n \<and> n \<le> 102 then Some (n - 87)
      else if 65 \<le> n \<and> n \<le> 70 then Some (n - 55)
      else None)"

fun hex_digits :: "string \<Rightarrow> error + nat list" where
  "hex_digits [] = Inr []"
| "hex_digits (c # cs) =
     (case fromHexChar c of
        None \<Rightarrow> Inl (InvalidByteError c)
      | Some d \<Rightarrow> (case hex_digits cs of Inl e \<Rightarrow> Inl e | Inr ds \<Rightarrow> Inr (d # ds)))"

definition ObjectIDFromHex :: "string \<Rightarrow> error + ObjectID" where
  "ObjectIDFromHex s =
     (if length s \<noteq> 24 then Inl ErrInvalidHex
      else case hex_digits s of
             Inl e \<Rightarrow> Inl e
           | Inr ds \<Rightarrow> Inr (foldl (\<lambda>acc d. push_bit 4 acc OR of_nat d) 0 ds))"

definition hextable :: string where
  "hextable = ''0123456789abcdef''"

definition Hex :: "ObjectID \<Rightarrow> string" where
  "Hex oid = map (\<lambda>i. hextable ! unat (drop_bit (4 * i) oid AND 15)) (rev [0..<24])"

subsection \<open>Documents and the collection (library)\<close>

text \<open>
  \<^verbatim>\<open>bson.D\<close> is an ordered list of key/value elements. A filter element matches a
  document that holds the same value under the key; a \<open>Null\<close> value also matches a
  document without the key, which is why the one-element filter \<^verbatim>\<open>bson.D{{}}\<close>
  (empty key, nil value) selects every document that has no field of the empty name.
\<close>

datatype bson =
    Null
  | String string
  | Double float64
  | OID ObjectID
  | Document "(string \<times> bson) list"

type_synonym D = "(string \<times> bson) list"

definition matches :: "D \<Rightarrow> D \<Rightarrow> bool" where
  "matches fltr doc =
     list_all (\<lambda>(k, v). if v = Null then map_of doc k = None \<or> map_of doc k = Some Null
                         else map_of doc k = Some v) fltr"

text \<open>The update operator \<^verbatim>\<open>$set\<close>: each listed field is overwritten, or added at the end.\<close>

definition set_fields :: "D \<Rightarrow> D \<Rightarrow> D" where
  "set_fields fields doc = foldl (\<lambda>d (k, v). AList.update k v d) doc fields"

definition apply_update :: "D \<Rightarrow> D \<Rightarrow> D" where
  "apply_update update doc =
     foldl (\<lambda>d (op, arg). case arg of
                             Document fields \<Rightarrow> if op = ''$set'' then set_fields fields d else d
                           | _ \<Rightarrow> d) doc update"

datatype store_call =
    CallFind D
  | CallInsertOne D
  | CallFindOne D
  | CallFindOneAndUpdate D D
  | CallDeleteOne D

text \<open>
  The store as the handlers see it: the documents of the collection, and the operations
  issued against it so far.
\<close>

record world =
  docs :: "D list"
  calls :: "store_call list"

text \<open>
  What the driver may report during one request, independently of the handler: a failure of
  each operation, and the identifier \<^verbatim>\<open>primitive.NewObjectID()\<close> produces for a document
  inserted without one.

  The collection is shared with the other clients of the store, and the create handler is
  the one handler that issues two operations. What keeps its second operation,
  \<^verbatim>\<open>FindOne\<close>, from returning the document as stored is therefore either an error of the
  query or another client that has replaced the document by the time the query reads it.
\<close>

datatype findone_fault = QueryError error | Rewritten "(string \<times> bson) list"

record driver =
  find_fails :: "error option"
  insert_fails :: "error option"
  findone_fails :: "findone_fault option"
  update_fails :: "error option"
  delete_fails :: "error option"
  NewObjectID :: ObjectID

definition issue :: "store_call \<Rightarrow> world \<Rightarrow> world" where
  "issue call w = w\<lparr>calls := calls w @ [call]\<rparr>"

definition Find :: "driver \<Rightarrow> D \<Rightarrow> world \<Rightarrow> (error + D list) \<times> world" where
  "Find drv query w =
     (let w' = issue (CallFind query) w in
      case find_fails drv of
        Some e \<Rightarrow> (Inl e, w')
      | None \<Rightarrow> (Inr (filter (matches query) (docs w')), w'))"

definition InsertOne :: "driver \<Rightarrow> D \<Rightarrow> world \<Rightarrow> (error + bson) \<times> world" where
  "InsertOne drv doc w =
     (let w' = issue (CallInsertOne doc) w in
      case insert_fails drv of
        Some e \<Rightarrow> (Inl e, w')
      | None \<Rightarrow>
          let (insertedID, doc') =
                (case map_of doc ''_id'' of
                   Some v \<Rightarrow> (v, doc)
                 | None \<Rightarrow> (OID (NewObjectID drv), (''_id'', OID (NewObjectID drv)) # doc))
          in if list_ex (\<lambda>d. map_of d ''_id'' = Some insertedID) (docs w')
             then (Inl DuplicateKey, w')
             else (Inr insertedID, w'\<lparr>docs := docs w' @ [doc']\<rparr>))"

datatype SingleResult = SingleDoc D | SingleErr error

fun update_first :: "(D \<Rightarrow> bool) \<Rightarrow> (D \<Rightarrow> D) \<Rightarrow> D list \<Rightarrow> D list" where
  "update_first P f [] = []"
| "update_first P f (d # ds) = (if P d then f d # ds else d # update_first P f ds)"

definition FindOne :: "driver \<Rightarrow> D \<Rightarrow> world \<Rightarrow> SingleResult \<times> world" where
  "FindOne drv fltr w =
     (let w' = issue (CallFindOne fltr) w in
      case findone_fails drv of
        Some (QueryError e) \<Rightarrow> (SingleErr e, w')
      | Some (Rewritten d') \<Rightarrow>
          (case find (matches fltr) (docs w') of
             None \<Rightarrow> (SingleErr ErrNoDocuments, w')
           | Some d \<Rightarrow>
               (SingleDoc d',
                w'\<lparr>docs := update_first (matches fltr) (\<lambda>d. d') (docs w')\<rparr>))
      | None \<Rightarrow> (case find (matches fltr) (docs w') of
                   None \<Rightarrow> (SingleErr ErrNoDocuments, w')
                 | Some d \<Rightarrow> (SingleDoc d, w')))"

definition FindOneAndUpdate :: "driver \<Rightarrow> D \<Rightarrow> D \<Rightarrow> world \<Rightarrow> SingleResult \<times> world" where
  "FindOneAndUpdate drv fltr update w =
     (let w' = issue (CallFindOneAndUpdate fltr update) w in
      case update_fails drv of
        Some e \<Rightarrow> (SingleErr e, w')
      | None \<Rightarrow> (case find (matches fltr) (docs w') of
                   None \<Rightarrow> (SingleErr ErrNoDocuments, w')
                 | Some d \<Rightarrow>
                     (SingleDoc d,
                      w'\<lparr>docs := update_first (matches fltr) (apply_update update) (docs w')\<rparr>)))"

definition Err :: "SingleResult \<Rightarrow> error option" where
  "Err sr = (case sr of SingleDoc d \<Rightarrow> None | SingleErr e \<Rightarrow> Some e)"

fun delete_first :: "(D \<Rightarrow> bool) \<Rightarrow> D list \<Rightarrow> D list" where
  "delete_first P [] = []"
| "delete_first P (d # ds) = (if P d then ds else d # delete_first P ds)"

text \<open>\<^verbatim>\<open>DeleteOne\<close> yields the \<^verbatim>\<open>DeletedCount\<close> of its result, an \<^verbatim>\<open>int64\<close>.\<close>

definition DeleteOne :: "driver \<Rightarrow> D \<Rightarrow> world \<Rightarrow> (error + int) \<times> world" where
  "DeleteOne drv fltr w =
     (let w' = issue (CallDeleteOne fltr) w in
      case delete_fails drv of
        Some e \<Rightarrow> (Inl e, w')
      | None \<Rightarrow> (if list_ex (matches fltr) (docs w')
                 then (Inr 1, w'\<lparr>docs := delete_first (matches fltr) (docs w')\<rparr>)
                 else (Inr 0, w')))"

subsection \<open>The employee record and its encodings\<close>

text \<open>
  \<^verbatim>\<open>type Employee struct\<close>. Its bson keys are \<^verbatim>\<open>_id\<close> (omitted when empty), \<^verbatim>\<open>name\<close>,
  \<^verbatim>\<open>salary\<close> and \<^verbatim>\<open>age\<close>.
\<close>

record Employee =
  ID :: string
  Name :: string
  Salary :: float64
  Age :: float64

definition new_Employee :: Employee where
  "new_Employee = \<lparr>ID = [], Name = [], Salary = 0, Age = 0\<rparr>"

definition marshal :: "Employee \<Rightarrow> D" where
  "marshal e =
     (if ID e = [] then [] else [(''_id'', String (ID e))]) @
     [(''name'', String (Name e)), (''salary'', Double (Salary e)), (''age'', Double (Age e))]"

text \<open>
  Decoding (library) goes through the document in its own order, stops at the first
  element whose value does not fit the field, and keeps what was decoded before it. An
  identifier stored as an \<^verbatim>\<open>ObjectID\<close> is decoded into a string field as its hex text.

  An element belongs to the field whose key is the element's key, or else the element's key
  in lower case (\<^verbatim>\<open>strings.ToLower\<close>). The four keys are ASCII, so of that function only
  what can yield an ASCII letter matters: the letters \<^verbatim>\<open>A\<close> to \<^verbatim>\<open>Z\<close>, and the capital
  dotted I (U+0130, the bytes C4 B0), whose lower case is \<^verbatim>\<open>i\<close>. Every other byte is kept.
\<close>

definition lower_ascii :: "char \<Rightarrow> char" where
  "lower_ascii c =
     (case map_of (zip ''ABCDEFGHIJKLMNOPQRSTUVWXYZ'' ''abcdefghijklmnopqrstuvwxyz'') c of
        Some l \<Rightarrow> l
      | None \<Rightarrow> c)"

fun ToLower :: "string \<Rightarrow> string" where
  "ToLower [] = []"
| "ToLower [c] = [lower_ascii c]"
| "ToLower (c # d # cs) =
     (if c = CHR 0xC4 \<and> d = CHR 0xB0 then CHR ''i'' # ToLower cs
      else lower_ascii c # ToLower (d # cs))"

definition decode_elem :: "string \<times> bson \<Rightarrow> Employee \<Rightarrow> error + Employee" where
  "decode_elem kv e =
     (let k = ToLower (fst kv); v = snd kv in
      if k = ''_id'' then
        (case v of OID oid \<Rightarrow> Inr (e\<lparr>ID := Hex oid\<rparr>)
                 | String s \<Rightarrow> Inr (e\<lparr>ID := s\<rparr>)
                 | Null \<Rightarrow> Inr (e\<lparr>ID := []\<rparr>)
                 | _ \<Rightarrow> Inl (DecodeError k))
      else if k = ''name'' then
        (case v of OID oid \<Rightarrow> Inr (e\<lparr>Name := Hex oid\<rparr>)
                 | String s \<Rightarrow> Inr (e\<lparr>Name := s\<rparr>)
                 | Null \<Rightarrow> Inr (e\<lparr>Name := []\<rparr>)
                 | _ \<Rightarrow> Inl (DecodeError k))
      else if k = ''salary'' then
        (case v of Double f \<Rightarrow> Inr (e\<lparr>Salary := f\<rparr>)
                 | Null \<Rightarrow> Inr (e\<lparr>Salary := 0\<rparr>)
                 | _ \<Rightarrow> Inl (DecodeError k))
      else if k = ''age'' then
        (case v of Double f \<Rightarrow> Inr (e\<lparr>Age := f\<rparr>)
                 | Null \<Rightarrow> Inr (e\<lparr>Age := 0\<rparr>)
                 | _ \<Rightarrow> Inl (DecodeError k))
      else Inr e)"

fun Unmarshal :: "D \<Rightarrow> Employee \<Rightarrow> error option \<times> Employee" where
  "Unmarshal [] e = (None, e)"
| "Unmarshal (kv # doc) e =
     (case decode_elem kv e of
        Inl err \<Rightarrow> (Some err, e)
      | Inr e' \<Rightarrow> Unmarshal doc e')"

text \<open>\<^verbatim>\<open>SingleResult.Decode\<close>: the error of the query if it had one, else the decoding.\<close>

definition Decode :: "SingleResult \<Rightarrow> Employee \<Rightarrow> error option \<times> Employee" where
  "Decode sr v = (case sr of SingleErr e \<Rightarrow> (Some e, v) | SingleDoc d \<Rightarrow> Unmarshal d v)"

fun decode_all :: "D list \<Rightarrow> error + Employee list" where
  "decode_all [] = Inr []"
| "decode_all (d # ds) =
     (case Unmarshal d new_Employee of
        (Some err, _) \<Rightarrow> Inl err
      | (None, e) \<Rightarrow> (case decode_all ds of Inl err \<Rightarrow> Inl err | Inr es \<Rightarrow> Inr (e # es)))"

text \<open>
  \<^verbatim>\<open>Cursor.All\<close> assigns the caller's slice only once every document has been decoded;
  when it fails the slice is as it was.
\<close>

definition All :: "D list \<Rightarrow> Employee list \<Rightarrow> error option \<times> Employee list" where
  "All cursor results =
     (case decode_all cursor of Inl err \<Rightarrow> (Some err, results) | Inr es \<Rightarrow> (None, es))"

subsection \<open>The request context (library)\<close>

text \<open>
  \<^verbatim>\<open>fiber.Ctx\<close>: the path parameters and the body of the request, and the response being
  built. \<open>parsed\<close> is what \<^verbatim>\<open>BodyParser\<close> makes of the request body: its error, or the
  record it fills. \<open>writes\<close> lists every write to the response, oldest first.
\<close>

datatype json = JEmployees "Employee list" | JEmployee Employee | JString string

datatype body = Empty | Text message | StatusMessage nat | JSONBody json

datatype response_write =
    WriteStatus nat
  | WriteSendString message
  | WriteSendStatus nat
  | WriteJSON json

record Ctx =
  Params :: "string \<Rightarrow> string"
  parsed :: "error + Employee"
  status :: nat
  body :: body
  writes :: "response_write list"

definition request :: "(string \<Rightarrow> string) \<Rightarrow> error + Employee \<Rightarrow> Ctx" where
  "request ps b = \<lparr>Params = ps, parsed = b, status = 200, body = Empty, writes = []\<rparr>"

definition BodyParser :: "Ctx \<Rightarrow> Employee \<Rightarrow> error option \<times> Employee" where
  "BodyParser c out = (case parsed c of Inl err \<Rightarrow> (Some err, out) | Inr v \<Rightarrow> (None, v))"

definition Status :: "nat \<Rightarrow> Ctx \<Rightarrow> Ctx" where
  "Status n c = c\<lparr>status := n, writes := writes c @ [WriteStatus n]\<rparr>"

definition SendString :: "message \<Rightarrow> Ctx \<Rightarrow> Ctx" where
  "SendString m c = c\<lparr>body := Text m, writes := writes c @ [WriteSendString m]\<rparr>"

definition SendStatus :: "nat \<Rightarrow> Ctx \<Rightarrow> Ctx" where
  "SendStatus n c =
     (let c' = c\<lparr>status := n, writes := writes c @ [WriteSendStatus n]\<rparr>
      in if body c = Empty then c'\<lparr>body := StatusMessage n\<rparr> else c')"

definition JSON :: "json \<Rightarrow> Ctx \<Rightarrow> Ctx" where
  "JSON v c = c\<lparr>body := JSONBody v, writes := writes c @ [WriteJSON v]\<rparr>"

subsection \<open>The handlers\<close>

text \<open>\<^verbatim>\<open>app.Get("/employee", ...)\<close>\<close>

definition get_employees :: "driver \<Rightarrow> Ctx \<Rightarrow> world \<Rightarrow> Ctx \<times> world" where
  "get_employees drv c w =
     (let query = [([], Null)] in
      case Find drv query w of
        (Inl err, w') \<Rightarrow> (SendString (ErrorText err) (Status 500 c), w')
      | (Inr cursor, w') \<Rightarrow>
          (let employees = [];
               (err, employees) = All cursor employees;
               c = (case err of
                      Some err \<Rightarrow> SendString (ErrorText err) (Status 500 c)
                    | None \<Rightarrow> c)
           in (JSON (JEmployees employees) c, w')))"

text \<open>\<^verbatim>\<open>app.Post("/employee", ...)\<close>\<close>

definition post_employee :: "driver \<Rightarrow> Ctx \<Rightarrow> world \<Rightarrow> Ctx \<times> world" where
  "post_employee drv c w =
     (case BodyParser c new_Employee of
        (Some err, employee) \<Rightarrow> (SendString (ErrorText err) (Status 400 c), w)
      | (None, employee) \<Rightarrow>
          (let employee = employee\<lparr>ID := []\<rparr> in
           (case InsertOne drv (marshal employee) w of
              (Inl err, w') \<Rightarrow> (SendString (ErrorText err) (Status 500 c), w')
            | (Inr InsertedID, w') \<Rightarrow>
                (let fltr = [(''_id'', InsertedID)];
                     (createdRecord, w'') = FindOne drv fltr w';
                     createdEmployee = snd (Decode createdRecord new_Employee)
                 in (JSON (JEmployee createdEmployee) (Status 201 c), w'')))))"

text \<open>\<^verbatim>\<open>app.Put("/employee/:id", ...)\<close>, with the filter and the update document it builds.\<close>

definition put_query :: "ObjectID \<Rightarrow> D" where
  "put_query employeeID = [(''_id'', OID employeeID)]"

definition put_update :: "Employee \<Rightarrow> D" where
  "put_update employee =
     [(''$set'', Document [(''name'', String (Name employee)),
                          (''age'', Double (Age employee)),
                          (''salary'', Double (Salary employee))])]"

definition put_employee :: "driver \<Rightarrow> Ctx \<Rightarrow> world \<Rightarrow> Ctx \<times> world" where
  "put_employee drv c w =
     (let idParam = Params c ''id'' in
      case ObjectIDFromHex idParam of
        Inl err \<Rightarrow> (SendStatus 400 c, w)
      | Inr employeeID \<Rightarrow>
          (case BodyParser c new_Employee of
             (Some err, employee) \<Rightarrow> (SendString (ErrorText err) (Status 400 c), w)
           | (None, employee) \<Rightarrow>
               (let query = put_query employeeID;
                    update = put_update employee;
                    (res, w') = FindOneAndUpdate drv query update w
                in (case Err res of
                      Some err \<Rightarrow>
                        if err = ErrNoDocuments then (SendStatus 400 c, w')
                        else (SendStatus 500 c, w')
                    | None \<Rightarrow>
                        (JSON (JEmployee (employee\<lparr>ID := idParam\<rparr>)) (Status 200 c), w')))))"

text \<open>\<^verbatim>\<open>app.Delete("/employee/:id", ...)\<close>\<close>

definition delete_employee :: "driver \<Rightarrow> Ctx \<Rightarrow> world \<Rightarrow> Ctx \<times> world" where
  "delete_employee drv c w =
     (case ObjectIDFromHex (Params c ''id'') of
        Inl err \<Rightarrow> (SendString (ErrorText err) (Status 400 c), w)
      | Inr employeeID \<Rightarrow>
          (let query = [(''_id'', OID employeeID)] in
           (case DeleteOne drv query w of
              (Inl err, w') \<Rightarrow> (SendStatus 500 c, w')
            | (Inr DeletedCount, w') \<Rightarrow>
                if DeletedCount < 1 then (SendStatus 404 c, w')
                else (JSON (JString ''record deleted...'') (Status 200 c), w'))))"

subsection \<open>Startup\<close>

text \<open>
  The process: the global \<^verbatim>\<open>mg\<close> and what the process has done so far. \<open>startup\<close> holds
  what the libraries report while it starts.
\<close>

datatype Client = ClientFor string
datatype Database = DatabaseOf Client string

record MongoInstance =
  Client :: "Client option"
  Db :: "Database option"

definition zero_MongoInstance :: MongoInstance where
  "zero_MongoInstance = \<lparr>Client = None, Db = None\<rparr>"

definition dbName :: string where
  "dbName = ''fiber-hrms''"

definition mongoURI :: string where
  "mongoURI = ''mongodb://localhost:27017/'' @ dbName"

datatype event =
    NewClient string
  | ClientConnect
  | Panic
  | Fatal "message list"
  | Exit nat
  | Route string string
  | Listen string

record process =
  mg :: MongoInstance
  trace :: "event list"

record startup =
  new_client_fails :: "error option"
  connect_fails :: "error option"
  listen_fails :: "error option"
  reachable :: bool

text \<open>
  \<^verbatim>\<open>client.Connect\<close> (library) starts the monitoring of the deployment in the background
  and returns. It does not wait for a server to answer, so what it returns does not depend
  on whether the store can be reached.
\<close>

definition client_Connect :: "startup \<Rightarrow> error option" where
  "client_Connect st = connect_fails st"


definition emit :: "event list \<Rightarrow> process \<Rightarrow> process" where
  "emit es p = p\<lparr>trace := trace p @ es\<rparr>"

datatype outcome = Panicked | Returned "error option"

text \<open>
  \<^verbatim>\<open>func Connect() error\<close>. The error of \<^verbatim>\<open>mongo.NewClient\<close> is overwritten unread; had
  it failed, \<^verbatim>\<open>client\<close> is nil and \<^verbatim>\<open>client.Connect\<close> panics.
\<close>

definition Connect :: "startup \<Rightarrow> process \<Rightarrow> outcome \<times> process" where
  "Connect st p =
     (let client = (case new_client_fails st of
                      Some err \<Rightarrow> None
                    | None \<Rightarrow> Some (ClientFor mongoURI));
          p = emit [NewClient mongoURI] p
      in case client of
           None \<Rightarrow> (Panicked, emit [Panic] p)
         | Some cl \<Rightarrow>
             (let err = client_Connect st;
                  p = emit [ClientConnect] p;
                  db = DatabaseOf cl dbName
              in (case err of
                    Some e \<Rightarrow> (Returned (Some e), p)
                  | None \<Rightarrow> (Returned None, p\<lparr>mg := \<lparr>Client = Some cl, Db = Some db\<rparr>\<rparr>))))"


subsection \<open>Sample requests and stores\<close>

text \<open>
  Concrete inputs for the instances below: a driver that reports no failure, a request
  body (salary 1000 and age 30 as doubles) with an identifier of the client's, and an
  empty collection.
\<close>

definition quiet :: driver where
  "quiet = \<lparr>find_fails = None, insert_fails = None, findone_fails = None,
             update_fails = None, delete_fails = None,
             NewObjectID = 0x650000000000000000000001\<rparr>"

definition ann :: Employee where
  "ann = \<lparr>ID = ''abc'', Name = ''Ann'', Salary = 0x408F400000000000, Age = 0x403E000000000000\<rparr>"

definition no_store :: world where
  "no_store = \<lparr>docs = [], calls = []\<rparr>"

definition params_of :: "string \<Rightarrow> string \<Rightarrow> string" where
  "params_of v key = (if key = ''id'' then v else [])"

definition ann_id :: string where
  "ann_id = ''650000000000000000000001''"

definition other_id :: string where
  "other_id = ''650000000000000000000002''"

text \<open>The collection after Ann has been created, and a second request body.\<close>

definition ann_store :: world where
  "ann_store =
     \<lparr>docs = [(''_id'', OID 0x650000000000000000000001) # marshal (ann\<lparr>ID := []\<rparr>)],
      calls = []\<rparr>"

definition bo :: Employee where
  "bo = \<lparr>ID = [], Name = ''Bo'', Salary = 0x409F400000000000, Age = 0x4044800000000000\<rparr>"

text \<open>A driver whose every operation fails, and one that fails only on \<^verbatim>\<open>FindOne\<close>.\<close>

definition unreachable :: driver where
  "unreachable =
     \<lparr>find_fails = Some (Failure ''server selection timeout''),
      insert_fails = Some (Failure ''server selection timeout''),
      findone_fails = Some (QueryError (Failure ''server selection timeout'')),
      update_fails = Some (Failure ''server selection timeout''),
      delete_fails = Some (Failure ''server selection timeout''),
      NewObjectID = 0x650000000000000000000002\<rparr>"

definition refetch_down :: driver where
  "refetch_down = quiet\<lparr>findone_fails := Some (QueryError (Failure ''connection reset''))\<rparr>"

text \<open>
  A collection holding a document whose \<^verbatim>\<open>name\<close> is the number 5, a GET request (it has
  no body to parse), and a request body whose identifier is the one the driver is about to
  generate.
\<close>

definition mistyped_store :: world where
  "mistyped_store =
     \<lparr>docs = [[(''_id'', OID 0x650000000000000000000001),
               (''name'', Double 0x4014000000000000)]],
      calls = []\<rparr>"

definition get_request :: Ctx where
  "get_request = request (params_of []) (Inl (Failure ''Unprocessable Entity''))"

definition guess :: Employee where
  "guess = ann\<lparr>ID := ''650000000000000000000001''\<rparr>"

text \<open>A startup in which \<^verbatim>\<open>client.Connect\<close> reports an error.\<close>

definition refused :: startup where
  "refused = \<lparr>new_client_fails = None, connect_fails = Some (Failure ''connection refused''),
              listen_fails = None, reachable = False\<rparr>"


definition rewritten :: driver where
  "rewritten =
     quiet\<lparr>findone_fails :=
             Some (Rewritten [(''_id'', OID 0x650000000000000000000001),
                              (''name'', String ''Ann''),
                              (''salary'', String ''n/a''),
                              (''age'', Double 0x403E000000000000)])\<rparr>"

section \<open>Properties\<close>

subsection \<open>The response operations\<close>

lemma status_simps:
  "status (Status n c) = n" "status (SendString m c) = status c"
  "status (SendStatus n c) = n" "status (JSON v c) = status c"
  by (simp_all add: Status_def SendString_def SendStatus_def JSON_def Let_def)

lemma body_simps:
  "body (Status n c) = body c" "body (SendString m c) = Text m"
  "body (JSON v c) = JSONBody v"
  by (simp_all add: Status_def SendString_def JSON_def)

lemma writes_simps:
  "writes (Status n c) = writes c @ [WriteStatus n]"
  "writes (SendString m c) = writes c @ [WriteSendString m]"
  "writes (SendStatus n c) = writes c @ [WriteSendStatus n]"
  "writes (JSON v c) = writes c @ [WriteJSON v]"
  by (simp_all add: Status_def SendString_def SendStatus_def JSON_def Let_def)

subsection \<open>Malformed identifiers\<close>

text \<open>
  C6. When the path identifier of a PUT or DELETE request is not a valid identifier
  (\<^verbatim>\<open>ObjectIDFromHex\<close> fails on it), the handler answers 400 and the store is exactly as
  before: no operation has been issued and no document has changed.
\<close>

theorem malformed_id_no_store_call:
  assumes "ObjectIDFromHex (Params c ''id'') = Inl err"
  shows "status (fst (put_employee drv c w)) = 400 \<and> snd (put_employee drv c w) = w \<and>
         status (fst (delete_employee drv c w)) = 400 \<and> snd (delete_employee drv c w) = w"
  using assms by (simp add: put_employee_def delete_employee_def status_simps)

theorem malformed_id_no_store_call_witness:
  "ObjectIDFromHex (Params (request (params_of ''xyz'') (Inr ann)) ''id'') = Inl ErrInvalidHex \<and>
   status (fst (put_employee quiet (request (params_of ''xyz'') (Inr ann)) no_store)) = 400 \<and>
   snd (put_employee quiet (request (params_of ''xyz'') (Inr ann)) no_store) = no_store \<and>
   status (fst (delete_employee quiet (request (params_of ''xyz'') (Inr ann)) no_store)) = 400 \<and>
   snd (delete_employee quiet (request (params_of ''xyz'') (Inr ann)) no_store) = no_store"
proof -
  have h: "ObjectIDFromHex (Params (request (params_of ''xyz'') (Inr ann)) ''id'') = Inl ErrInvalidHex"
    by (simp add: request_def params_of_def ObjectIDFromHex_def)
  show ?thesis using h malformed_id_no_store_call [OF h, of quiet no_store] by simp
qed

subsection \<open>Facts about the library model\<close>

lemma Params_request: "Params (request ps b) = ps" "parsed (request ps b) = b"
  by (simp_all add: request_def)

lemma ann_id_parses: "ObjectIDFromHex ann_id = Inr 0x650000000000000000000001"
  by (simp add: ann_id_def ObjectIDFromHex_def fromHexChar_def)

lemma other_id_parses: "ObjectIDFromHex other_id = Inr 0x650000000000000000000002"
  by (simp add: other_id_def ObjectIDFromHex_def fromHexChar_def)

lemma docs_ann_store:
  "docs ann_store = [(''_id'', OID 0x650000000000000000000001) # marshal (ann\<lparr>ID := []\<rparr>)]"
  by (simp add: ann_store_def)

lemma ToLower_keys:
  "ToLower ''_id'' = ''_id''" "ToLower ''name'' = ''name''"
  "ToLower ''salary'' = ''salary''" "ToLower ''age'' = ''age''"
  by (simp_all add: lower_ascii_def)

lemma ToLower_upper_keys:
  "ToLower ''_ID'' = ''_id''" "ToLower ''Name'' = ''name''" "ToLower ''SALARY'' = ''salary''"
  by (simp_all add: lower_ascii_def)

lemma ToLower_dotted_I: "ToLower [CHR ''_'', CHR 0xC4, CHR 0xB0, CHR ''D''] = ''_id''"
  by (simp add: lower_ascii_def)

lemma Unmarshal_upper_keys:
  "Unmarshal [(''_ID'', String ''x''), (''Name'', String ''Ann''),
              (''SALARY'', Double 0x408F400000000000), (''other'', Null)] new_Employee =
     (None, \<lparr>ID = ''x'', Name = ''Ann'', Salary = 0x408F400000000000, Age = 0\<rparr>)"
  by (simp add: decode_elem_def lower_ascii_def new_Employee_def)

lemma matches_put_query: "matches (put_query oid) d \<longleftrightarrow> map_of d ''_id'' = Some (OID oid)"
  by (simp add: matches_def put_query_def)

lemma find_None_iff_all: "find P xs = None \<longleftrightarrow> (\<forall>x\<in>set xs. \<not> P x)"
  by (induction xs) auto

lemma find_Some_member: "find P xs = Some x \<Longrightarrow> x \<in> set xs \<and> P x"
  by (induction xs) (auto split: if_splits)

lemma FindOneAndUpdate_calls:
  "calls (snd (FindOneAndUpdate drv q u w)) = calls w @ [CallFindOneAndUpdate q u]"
  by (simp add: FindOneAndUpdate_def issue_def Let_def split: option.splits)

lemma FindOneAndUpdate_Err:
  "Err (fst (FindOneAndUpdate drv q u w)) =
     (case update_fails drv of
        Some e \<Rightarrow> Some e
      | None \<Rightarrow> if \<forall>d\<in>set (docs w). \<not> matches q d then Some ErrNoDocuments else None)"
  by (auto simp add: FindOneAndUpdate_def issue_def Let_def Err_def find_None_iff_all
      split: option.splits dest: find_Some_member)

lemma FindOneAndUpdate_failed_docs:
  "Err (fst (FindOneAndUpdate drv q u w)) = Some e \<Longrightarrow>
   docs (snd (FindOneAndUpdate drv q u w)) = docs w"
  by (auto simp add: FindOneAndUpdate_def issue_def Let_def Err_def split: option.splits)

lemma FindOneAndUpdate_docs:
  "docs (snd (FindOneAndUpdate drv q u w)) = docs w \<or>
   docs (snd (FindOneAndUpdate drv q u w)) = update_first (matches q) (apply_update u) (docs w)"
  by (simp add: FindOneAndUpdate_def issue_def Let_def split: option.splits)

lemma set_fields_other:
  "k \<notin> fst ` set fs \<Longrightarrow> map_of (set_fields fs d) k = map_of d k"
  unfolding set_fields_def
  by (induction fs arbitrary: d) (auto simp add: AList.update_conv')

lemma update_first_rel:
  assumes "\<And>d. P d \<Longrightarrow> R d (f d)" and "\<And>d. R d d"
  shows "list_all2 R ds (update_first P f ds)"
  by (induction ds) (auto simp add: assms list_all2_refl)

subsection \<open>Delete\<close>

text \<open>
  C4. For a DELETE request with a valid identifier: when \<^verbatim>\<open>DeleteOne\<close> reports a count of
  at least 1 the answer is 200 with the JSON string \<^verbatim>\<open>record deleted...\<close>; when it
  reports a count of 0 the answer is 404; when it reports an error the answer is 500.
\<close>

theorem delete_status:
  assumes "ObjectIDFromHex (Params c ''id'') = Inr oid"
  shows "(DeleteOne drv [(''_id'', OID oid)] w = (Inr n, w') \<and> 1 \<le> n \<longrightarrow>
            status (fst (delete_employee drv c w)) = 200 \<and>
            body (fst (delete_employee drv c w)) = JSONBody (JString ''record deleted...'')) \<and>
         (DeleteOne drv [(''_id'', OID oid)] w = (Inr 0, w') \<longrightarrow>
            status (fst (delete_employee drv c w)) = 404) \<and>
         (DeleteOne drv [(''_id'', OID oid)] w = (Inl e, w') \<longrightarrow>
            status (fst (delete_employee drv c w)) = 500)"
  using assms by (simp add: delete_employee_def status_simps body_simps)

lemma DeleteOne_quiet_ann:
  "DeleteOne quiet [(''_id'', OID 0x650000000000000000000001)] ann_store =
     (Inr 1, \<lparr>docs = [], calls = [CallDeleteOne [(''_id'', OID 0x650000000000000000000001)]]\<rparr>)"
  by (simp add: DeleteOne_def quiet_def ann_store_def issue_def matches_def marshal_def Let_def)

lemma DeleteOne_quiet_none:
  "DeleteOne quiet [(''_id'', OID 0x650000000000000000000001)] no_store =
     (Inr 0, \<lparr>docs = [], calls = [CallDeleteOne [(''_id'', OID 0x650000000000000000000001)]]\<rparr>)"
  by (simp add: DeleteOne_def quiet_def no_store_def issue_def matches_def Let_def)

lemma DeleteOne_unreachable:
  "DeleteOne unreachable [(''_id'', OID 0x650000000000000000000001)] ann_store =
     (Inl (Failure ''server selection timeout''),
      issue (CallDeleteOne [(''_id'', OID 0x650000000000000000000001)]) ann_store)"
  by (simp add: DeleteOne_def unreachable_def Let_def)

theorem delete_status_witness:
  "status (fst (delete_employee quiet (request (params_of ann_id) (Inr ann)) ann_store)) = 200 \<and>
   body (fst (delete_employee quiet (request (params_of ann_id) (Inr ann)) ann_store)) =
     JSONBody (JString ''record deleted...'') \<and>
   status (fst (delete_employee quiet (request (params_of ann_id) (Inr ann)) no_store)) = 404 \<and>
   status (fst (delete_employee unreachable (request (params_of ann_id) (Inr ann)) ann_store)) = 500"
proof -
  have h: "ObjectIDFromHex (Params (request (params_of ann_id) (Inr ann)) ''id'') =
             Inr 0x650000000000000000000001"
    by (simp add: Params_request params_of_def ann_id_parses)
  show ?thesis
    using delete_status [OF h, of quiet ann_store 1] delete_status [OF h, of quiet no_store]
      delete_status [OF h, of unreachable ann_store]
      DeleteOne_quiet_ann DeleteOne_quiet_none DeleteOne_unreachable
    by simp
qed

subsection \<open>Update\<close>

text \<open>Once the identifier and the body have parsed, the handler is one store call.\<close>

lemma put_employee_parsed:
  assumes "ObjectIDFromHex (Params c ''id'') = Inr oid" and "parsed c = Inr e"
  shows "put_employee drv c w =
     (case Err (fst (FindOneAndUpdate drv (put_query oid) (put_update e) w)) of
        Some err \<Rightarrow> if err = ErrNoDocuments then SendStatus 400 c else SendStatus 500 c
      | None \<Rightarrow> JSON (JEmployee (e\<lparr>ID := Params c ''id''\<rparr>)) (Status 200 c),
      snd (FindOneAndUpdate drv (put_query oid) (put_update e) w))"
  using assms
  by (simp add: put_employee_def BodyParser_def Let_def split: prod.splits option.splits)

text \<open>
  C5. A PUT request with a valid identifier and a parseable body, on a store that holds a
  document with that identifier and does not fail, is answered 200 with the JSON of the
  record of the request body, its identifier set to the path parameter as the client wrote
  it; the update is the only operation issued against the store (nothing is fetched again).
\<close>

theorem update_success_echo:
  assumes "ObjectIDFromHex (Params c ''id'') = Inr oid" and "parsed c = Inr e"
    and "update_fails drv = None" and "\<exists>d\<in>set (docs w). map_of d ''_id'' = Some (OID oid)"
  shows "status (fst (put_employee drv c w)) = 200 \<and>
         body (fst (put_employee drv c w)) = JSONBody (JEmployee (e\<lparr>ID := Params c ''id''\<rparr>)) \<and>
         calls (snd (put_employee drv c w)) =
           calls w @ [CallFindOneAndUpdate (put_query oid) (put_update e)]"
proof -
  have "Err (fst (FindOneAndUpdate drv (put_query oid) (put_update e) w)) = None"
    using assms(3,4) by (auto simp add: FindOneAndUpdate_Err matches_put_query)
  then show ?thesis
    by (simp add: put_employee_parsed [OF assms(1,2)] status_simps body_simps
        FindOneAndUpdate_calls)
qed

theorem update_success_echo_witness:
  "status (fst (put_employee quiet (request (params_of ann_id) (Inr bo)) ann_store)) = 200 \<and>
   body (fst (put_employee quiet (request (params_of ann_id) (Inr bo)) ann_store)) =
     JSONBody (JEmployee (bo\<lparr>ID := ann_id\<rparr>)) \<and>
   calls (snd (put_employee quiet (request (params_of ann_id) (Inr bo)) ann_store)) =
     [CallFindOneAndUpdate (put_query 0x650000000000000000000001) (put_update bo)]"
proof -
  have h: "ObjectIDFromHex (Params (request (params_of ann_id) (Inr bo)) ''id'') =
             Inr 0x650000000000000000000001"
    by (simp add: Params_request params_of_def ann_id_parses)
  have p: "parsed (request (params_of ann_id) (Inr bo)) = Inr bo"
    by (simp add: Params_request)
  have q: "update_fails quiet = None"
    by (simp add: quiet_def)
  have m: "\<exists>d\<in>set (docs ann_store). map_of d ''_id'' = Some (OID 0x650000000000000000000001)"
    by (simp add: docs_ann_store)
  show ?thesis using update_success_echo [OF h p q m]
    by (simp add: Params_request params_of_def ann_store_def)
qed

text \<open>
  C3. A PUT request with a valid identifier and a parseable body: when the store does not
  fail and holds no document with that identifier, the answer is 400 and the documents of
  the collection are as before (nothing is created); when the update reports any error
  other than \<^verbatim>\<open>ErrNoDocuments\<close>, the answer is 500.
\<close>

theorem update_no_match:
  assumes "ObjectIDFromHex (Params c ''id'') = Inr oid" and "parsed c = Inr e"
  shows "(update_fails drv = None \<and> (\<forall>d\<in>set (docs w). map_of d ''_id'' \<noteq> Some (OID oid)) \<longrightarrow>
            status (fst (put_employee drv c w)) = 400 \<and>
            docs (snd (put_employee drv c w)) = docs w) \<and>
         (Err (fst (FindOneAndUpdate drv (put_query oid) (put_update e) w)) = Some err \<and>
            err \<noteq> ErrNoDocuments \<longrightarrow>
            status (fst (put_employee drv c w)) = 500)"
proof (intro conjI impI)
  assume "update_fails drv = None \<and> (\<forall>d\<in>set (docs w). map_of d ''_id'' \<noteq> Some (OID oid))"
  then have r: "Err (fst (FindOneAndUpdate drv (put_query oid) (put_update e) w)) =
                  Some ErrNoDocuments"
    by (simp add: FindOneAndUpdate_Err matches_put_query)
  show "status (fst (put_employee drv c w)) = 400"
    by (simp add: put_employee_parsed [OF assms] r status_simps)
  show "docs (snd (put_employee drv c w)) = docs w"
    by (simp add: put_employee_parsed [OF assms] FindOneAndUpdate_failed_docs [OF r])
next
  assume "Err (fst (FindOneAndUpdate drv (put_query oid) (put_update e) w)) = Some err \<and>
            err \<noteq> ErrNoDocuments"
  then show "status (fst (put_employee drv c w)) = 500"
    by (simp add: put_employee_parsed [OF assms] status_simps)
qed

theorem update_no_match_witness:
  "status (fst (put_employee quiet (request (params_of other_id) (Inr bo)) ann_store)) = 400 \<and>
   docs (snd (put_employee quiet (request (params_of other_id) (Inr bo)) ann_store)) =
     docs ann_store \<and>
   status (fst (put_employee unreachable (request (params_of other_id) (Inr bo)) ann_store)) = 500"
proof -
  have h: "ObjectIDFromHex (Params (request (params_of other_id) (Inr bo)) ''id'') =
             Inr 0x650000000000000000000002"
    by (simp add: Params_request params_of_def other_id_parses)
  have p: "parsed (request (params_of other_id) (Inr bo)) = Inr bo"
    by (simp add: Params_request)
  have q: "update_fails quiet = None"
    by (simp add: quiet_def)
  have m: "\<forall>d\<in>set (docs ann_store). map_of d ''_id'' \<noteq> Some (OID 0x650000000000000000000002)"
    by (simp add: docs_ann_store)
  have f: "Err (fst (FindOneAndUpdate unreachable (put_query 0x650000000000000000000002)
                       (put_update bo) ann_store)) = Some (Failure ''server selection timeout'')"
    by (simp add: FindOneAndUpdate_Err unreachable_def)
  show ?thesis
    using update_no_match [OF h p, of quiet ann_store] q m
      update_no_match [OF h p, of unreachable ann_store "Failure ''server selection timeout''"] f
    by simp
qed

text \<open>What the update document of the handler does to a document it is applied to.\<close>

lemma apply_put_update:
  "apply_update (put_update e) d =
     set_fields [(''name'', String (Name e)), (''age'', Double (Age e)),
                 (''salary'', Double (Salary e))] d"
  by (simp add: apply_update_def put_update_def)

lemma apply_put_update_other:
  "k \<notin> {''name'', ''age'', ''salary''} \<Longrightarrow>
   map_of (apply_update (put_update e) d) k = map_of d k"
  by (simp add: apply_put_update set_fields_other)

lemma put_bo_docs:
  "docs (snd (put_employee quiet (request (params_of ann_id) (Inr bo)) ann_store)) =
     [[(''_id'', OID 0x650000000000000000000001), (''name'', String ''Bo''),
       (''salary'', Double 0x409F400000000000), (''age'', Double 0x4044800000000000)]]"
  by (simp add: put_employee_def Params_request params_of_def ann_id_parses BodyParser_def
      FindOneAndUpdate_def issue_def quiet_def ann_store_def matches_def put_query_def
      put_update_def apply_update_def set_fields_def marshal_def ann_def bo_def Err_def Let_def)

text \<open>
  C8. A PUT request with a valid identifier and a parseable body leaves the collection
  with the same documents in the same order, where a document whose identifier is not the
  parsed one is unchanged, and every document keeps the value of every field other than
  \<^verbatim>\<open>name\<close>, \<^verbatim>\<open>age\<close> and \<^verbatim>\<open>salary\<close>, the identifier \<^verbatim>\<open>_id\<close> among them.
\<close>

theorem update_frame:
  assumes "ObjectIDFromHex (Params c ''id'') = Inr oid" and "parsed c = Inr e"
  shows "list_all2
           (\<lambda>d d'. (map_of d ''_id'' \<noteq> Some (OID oid) \<longrightarrow> d' = d) \<and>
                    (\<forall>k. k \<notin> {''name'', ''age'', ''salary''} \<longrightarrow> map_of d' k = map_of d k))
           (docs w) (docs (snd (put_employee drv c w)))"
proof -
  let ?R = "\<lambda>d d'. (map_of d ''_id'' \<noteq> Some (OID oid) \<longrightarrow> d' = d) \<and>
                    (\<forall>k. k \<notin> {''name'', ''age'', ''salary''} \<longrightarrow> map_of d' k = map_of d k)"
  have same: "list_all2 ?R (docs w) (docs w)"
    by (simp add: list_all2_refl)
  have upd: "list_all2 ?R (docs w)
               (update_first (matches (put_query oid)) (apply_update (put_update e)) (docs w))"
    by (rule update_first_rel) (simp_all add: matches_put_query apply_put_update_other)
  have "docs (snd (put_employee drv c w)) =
          docs (snd (FindOneAndUpdate drv (put_query oid) (put_update e) w))"
    by (simp add: put_employee_parsed [OF assms])
  with same upd FindOneAndUpdate_docs [of drv "put_query oid" "put_update e" w]
  show ?thesis by auto
qed

theorem update_frame_witness:
  "docs (snd (put_employee quiet (request (params_of ann_id) (Inr bo)) ann_store)) =
     [[(''_id'', OID 0x650000000000000000000001), (''name'', String ''Bo''),
       (''salary'', Double 0x409F400000000000), (''age'', Double 0x4044800000000000)]] \<and>
   list_all2
     (\<lambda>d d'. (map_of d ''_id'' \<noteq> Some (OID 0x650000000000000000000001) \<longrightarrow> d' = d) \<and>
              (\<forall>k. k \<notin> {''name'', ''age'', ''salary''} \<longrightarrow> map_of d' k = map_of d k))
     (docs ann_store)
     (docs (snd (put_employee quiet (request (params_of ann_id) (Inr bo)) ann_store)))"
proof -
  have h: "ObjectIDFromHex (Params (request (params_of ann_id) (Inr bo)) ''id'') =
             Inr 0x650000000000000000000001"
    by (simp add: Params_request params_of_def ann_id_parses)
  have p: "parsed (request (params_of ann_id) (Inr bo)) = Inr bo"
    by (simp add: Params_request)
  show ?thesis using update_frame [OF h p, of ann_store quiet] put_bo_docs by blast
qed

subsection \<open>Startup\<close>

text \<open>
  C10. When \<^verbatim>\<open>Connect\<close> returns an error, the global \<^verbatim>\<open>mg\<close> is what it was before the
  call; started from the zero value, its client and its database handle are still nil.
\<close>

theorem Connect_error_keeps_mg:
  assumes "fst (Connect st p) = Returned (Some e)"
  shows "mg (snd (Connect st p)) = mg p \<and>
         (mg p = zero_MongoInstance \<longrightarrow>
            Client (mg (snd (Connect st p))) = None \<and> Db (mg (snd (Connect st p))) = None)"
  using assms
  by (auto simp add: Connect_def client_Connect_def emit_def Let_def zero_MongoInstance_def
      split: option.splits)

theorem Connect_error_keeps_mg_witness:
  "fst (Connect refused \<lparr>mg = zero_MongoInstance, trace = []\<rparr>) =
     Returned (Some (Failure ''connection refused'')) \<and>
   mg (snd (Connect refused \<lparr>mg = zero_MongoInstance, trace = []\<rparr>)) = zero_MongoInstance \<and>
   Client (mg (snd (Connect refused \<lparr>mg = zero_MongoInstance, trace = []\<rparr>))) = None \<and>
   Db (mg (snd (Connect refused \<lparr>mg = zero_MongoInstance, trace = []\<rparr>))) = None"
proof -
  have h: "fst (Connect refused \<lparr>mg = zero_MongoInstance, trace = []\<rparr>) =
             Returned (Some (Failure ''connection refused''))"
    by (simp add: Connect_def client_Connect_def refused_def emit_def Let_def)
  show ?thesis using h Connect_error_keeps_mg [OF h] by (simp add: zero_MongoInstance_def)
qed










subsection \<open>Create\<close>

text \<open>Once the body has parsed, the handler is the insert followed by the re-fetch.\<close>

lemma post_employee_parsed:
  assumes "parsed c = Inr e"
  shows "post_employee drv c w =
     (case InsertOne drv (marshal (e\<lparr>ID := []\<rparr>)) w of
        (Inl err, w') \<Rightarrow> (SendString (ErrorText err) (Status 500 c), w')
      | (Inr iid, w') \<Rightarrow>
          (JSON (JEmployee (snd (Decode (fst (FindOne drv [(''_id'', iid)] w')) new_Employee)))
             (Status 201 c),
           snd (FindOne drv [(''_id'', iid)] w')))"
  using assms
  by (simp add: post_employee_def BodyParser_def Let_def split: prod.splits sum.splits)

lemma InsertOne_calls:
  "calls (snd (InsertOne drv doc w)) = calls w @ [CallInsertOne doc]"
  by (simp add: InsertOne_def issue_def Let_def split: option.splits prod.splits)

lemma FindOne_calls:
  "calls (snd (FindOne drv fltr w)) = calls w @ [CallFindOne fltr]"
  by (simp add: FindOne_def issue_def Let_def split: option.splits findone_fault.splits)

lemma marshal_no_id: "map_of (marshal (e\<lparr>ID := []\<rparr>)) ''_id'' = None"
  by (simp add: marshal_def)

lemma InsertOne_fresh:
  assumes "insert_fails drv = None" and "map_of doc ''_id'' = None"
    and "\<forall>d\<in>set (docs w). map_of d ''_id'' \<noteq> Some (OID (NewObjectID drv))"
  shows "InsertOne drv doc w =
           (Inr (OID (NewObjectID drv)),
            \<lparr>docs = docs w @ [(''_id'', OID (NewObjectID drv)) # doc],
             calls = calls w @ [CallInsertOne doc]\<rparr>)"
  using assms by (simp add: InsertOne_def issue_def Let_def list_ex_iff)

lemma find_last:
  "\<forall>x\<in>set xs. \<not> P x \<Longrightarrow> P y \<Longrightarrow> find P (xs @ [y]) = Some y"
  by (induction xs) auto

lemma FindOne_inserted:
  assumes "findone_fails drv = None"
    and "\<forall>d\<in>set ds. map_of d ''_id'' \<noteq> Some (OID n)"
  shows "FindOne drv [(''_id'', OID n)] \<lparr>docs = ds @ [(''_id'', OID n) # doc], calls = cs\<rparr> =
           (SingleDoc ((''_id'', OID n) # doc),
            \<lparr>docs = ds @ [(''_id'', OID n) # doc],
             calls = cs @ [CallFindOne [(''_id'', OID n)]]\<rparr>)"
proof -
  have "find (matches [(''_id'', OID n)]) (ds @ [(''_id'', OID n) # doc]) =
          Some ((''_id'', OID n) # doc)"
    using assms(2) by (intro find_last) (simp_all add: matches_def)
  then show ?thesis using assms(1) by (simp add: FindOne_def issue_def Let_def)
qed

lemma Unmarshal_stored:
  "Unmarshal ((''_id'', OID n) # marshal (e\<lparr>ID := []\<rparr>)) new_Employee =
     (None, \<lparr>ID = Hex n, Name = Name e, Salary = Salary e, Age = Age e\<rparr>)"
  by (simp add: marshal_def decode_elem_def lower_ascii_def new_Employee_def)

lemma length_Hex: "length (Hex n) = 24"
  by (simp add: Hex_def)

lemma Hex_quiet: "Hex (NewObjectID quiet) = ''650000000000000000000001''"
  by code_simp

lemma Hex_ann_id: "Hex 0x650000000000000000000001 = ''650000000000000000000001''"
  by code_simp

text \<open>
  C9. In the create handler, when the insert has succeeded and decoding the re-fetched
  result reports an error, no error is written: the handler is left with the store as the
  re-fetch left it and the answer 201, whose body is the JSON of what the decoding has put
  in the fresh record before it stopped. That is the zero-valued record when the re-fetch
  itself failed, and the fields decoded so far when a document came back.
\<close>

theorem create_refetch_error_swallowed:
  assumes "parsed c = Inr e"
    and "InsertOne drv (marshal (e\<lparr>ID := []\<rparr>)) w = (Inr iid, w1)"
    and "FindOne drv [(''_id'', iid)] w1 = (sr, w2)"
    and "Decode sr new_Employee = (Some err, partial)"
  shows "post_employee drv c w = (JSON (JEmployee partial) (Status 201 c), w2) \<and>
         status (fst (post_employee drv c w)) = 201 \<and>
         body (fst (post_employee drv c w)) = JSONBody (JEmployee partial) \<and>
         writes (fst (post_employee drv c w)) =
           writes c @ [WriteStatus 201, WriteJSON (JEmployee partial)] \<and>
         (sr = SingleErr err \<longrightarrow> partial = new_Employee) \<and>
         (\<forall>d. sr = SingleDoc d \<longrightarrow> partial = snd (Unmarshal d new_Employee))"
  using assms(2,3,4)
  by (auto simp add: post_employee_parsed [OF assms(1)] status_simps body_simps writes_simps
      Decode_def)

theorem create_refetch_error_swallowed_witness:
  "status (fst (post_employee refetch_down (request (params_of []) (Inr ann)) no_store)) = 201 \<and>
   body (fst (post_employee refetch_down (request (params_of []) (Inr ann)) no_store)) =
     JSONBody (JEmployee new_Employee) \<and>
   writes (fst (post_employee refetch_down (request (params_of []) (Inr ann)) no_store)) =
     [WriteStatus 201, WriteJSON (JEmployee new_Employee)] \<and>
   status (fst (post_employee rewritten (request (params_of []) (Inr ann)) no_store)) = 201 \<and>
   body (fst (post_employee rewritten (request (params_of []) (Inr ann)) no_store)) =
     JSONBody (JEmployee \<lparr>ID = ''650000000000000000000001'', Name = ''Ann'',
                          Salary = 0, Age = 0\<rparr>) \<and>
   calls (snd (post_employee rewritten (request (params_of []) (Inr ann)) no_store)) =
     [CallInsertOne (marshal (ann\<lparr>ID := []\<rparr>)),
      CallFindOne [(''_id'', OID 0x650000000000000000000001)]]"
proof -
  let ?w1 = "\<lparr>docs = [(''_id'', OID 0x650000000000000000000001) # marshal (ann\<lparr>ID := []\<rparr>)],
              calls = [CallInsertOne (marshal (ann\<lparr>ID := []\<rparr>))]\<rparr>"
  let ?w2 = "\<lparr>docs = [(''_id'', OID 0x650000000000000000000001) # marshal (ann\<lparr>ID := []\<rparr>)],
              calls = [CallInsertOne (marshal (ann\<lparr>ID := []\<rparr>)),
                       CallFindOne [(''_id'', OID 0x650000000000000000000001)]]\<rparr>"
  let ?d = "[(''_id'', OID 0x650000000000000000000001), (''name'', String ''Ann''),
             (''salary'', String ''n/a''), (''age'', Double 0x403E000000000000)]"
  let ?w3 = "\<lparr>docs = [?d],
              calls = [CallInsertOne (marshal (ann\<lparr>ID := []\<rparr>)),
                       CallFindOne [(''_id'', OID 0x650000000000000000000001)]]\<rparr>"
  have p: "parsed (request (params_of []) (Inr ann)) = Inr ann"
    by (simp add: Params_request)
  have w: "writes (request (params_of []) (Inr ann)) = []"
    by (simp add: request_def)
  have i: "InsertOne refetch_down (marshal (ann\<lparr>ID := []\<rparr>)) no_store =
             (Inr (OID 0x650000000000000000000001), ?w1)"
    by (simp add: InsertOne_def issue_def refetch_down_def quiet_def no_store_def marshal_def
        Let_def)
  have f: "FindOne refetch_down [(''_id'', OID 0x650000000000000000000001)] ?w1 =
             (SingleErr (Failure ''connection reset''), ?w2)"
    by (simp add: FindOne_def issue_def refetch_down_def quiet_def Let_def)
  have d: "Decode (SingleErr (Failure ''connection reset'')) new_Employee =
             (Some (Failure ''connection reset''), new_Employee)"
    by (simp add: Decode_def)
  have i': "InsertOne rewritten (marshal (ann\<lparr>ID := []\<rparr>)) no_store =
             (Inr (OID 0x650000000000000000000001), ?w1)"
    by (simp add: InsertOne_def issue_def rewritten_def quiet_def no_store_def marshal_def
        Let_def)
  have f': "FindOne rewritten [(''_id'', OID 0x650000000000000000000001)] ?w1 =
             (SingleDoc ?d, ?w3)"
    by (simp add: FindOne_def issue_def rewritten_def quiet_def matches_def Let_def)
  have d': "Decode (SingleDoc ?d) new_Employee =
             (Some (DecodeError ''salary''),
              \<lparr>ID = ''650000000000000000000001'', Name = ''Ann'', Salary = 0, Age = 0\<rparr>)"
    by (simp add: Decode_def decode_elem_def lower_ascii_def new_Employee_def Hex_ann_id)
  note t = create_refetch_error_swallowed [OF p i f d]
  note t' = create_refetch_error_swallowed [OF p i' f' d']
  from t have a1:
    "status (fst (post_employee refetch_down (request (params_of []) (Inr ann)) no_store)) = 201"
    by blast
  from t have a2:
    "body (fst (post_employee refetch_down (request (params_of []) (Inr ann)) no_store)) =
       JSONBody (JEmployee new_Employee)"
    by blast
  from t w have a3:
    "writes (fst (post_employee refetch_down (request (params_of []) (Inr ann)) no_store)) =
       [WriteStatus 201, WriteJSON (JEmployee new_Employee)]"
    by (simp add: writes_simps)
  from t' have b1:
    "status (fst (post_employee rewritten (request (params_of []) (Inr ann)) no_store)) = 201"
    by blast
  from t' have b2:
    "body (fst (post_employee rewritten (request (params_of []) (Inr ann)) no_store)) =
       JSONBody (JEmployee \<lparr>ID = ''650000000000000000000001'', Name = ''Ann'',
                            Salary = 0, Age = 0\<rparr>)"
    by blast
  from t' have "post_employee rewritten (request (params_of []) (Inr ann)) no_store =
      (JSON (JEmployee \<lparr>ID = ''650000000000000000000001'', Name = ''Ann'',
                        Salary = 0, Age = 0\<rparr>)
         (Status 201 (request (params_of []) (Inr ann))), ?w3)"
    by blast
  then have b3:
    "calls (snd (post_employee rewritten (request (params_of []) (Inr ann)) no_store)) =
       [CallInsertOne (marshal (ann\<lparr>ID := []\<rparr>)),
        CallFindOne [(''_id'', OID 0x650000000000000000000001)]]"
    by simp
  from a1 a2 a3 b1 b2 b3 show ?thesis by (intro conjI)
qed

text \<open>
  C2, as stated, fails. When the re-fetch fails the create handler answers 201 with the
  zero-valued record, whose identifier is empty; and when the client supplies the very
  identifier the driver generates next, the returned identifier is the client's.
\<close>

theorem create_identifier_counterexample:
  "status (fst (post_employee refetch_down (request (params_of []) (Inr ann)) no_store)) = 201 \<and>
   body (fst (post_employee refetch_down (request (params_of []) (Inr ann)) no_store)) =
     JSONBody (JEmployee \<lparr>ID = [], Name = [], Salary = 0, Age = 0\<rparr>) \<and>
   ID guess = ''650000000000000000000001'' \<and>
   body (fst (post_employee quiet (request (params_of []) (Inr guess)) no_store)) =
     JSONBody (JEmployee \<lparr>ID = ''650000000000000000000001'', Name = ''Ann'',
                          Salary = 0x408F400000000000, Age = 0x403E000000000000\<rparr>)"
proof -
  have m: "marshal (ann\<lparr>ID := []\<rparr>) =
             [(''name'', String ''Ann''), (''salary'', Double 0x408F400000000000),
              (''age'', Double 0x403E000000000000)]"
    by (simp add: marshal_def ann_def)
  have m': "marshal (guess\<lparr>ID := []\<rparr>) =
             [(''name'', String ''Ann''), (''salary'', Double 0x408F400000000000),
              (''age'', Double 0x403E000000000000)]"
    by (simp add: marshal_def ann_def guess_def)
  have a: "post_employee refetch_down (request (params_of []) (Inr ann)) no_store =
      (JSON (JEmployee new_Employee) (Status 201 (request (params_of []) (Inr ann))),
       \<lparr>docs = [(''_id'', OID 0x650000000000000000000001) # marshal (ann\<lparr>ID := []\<rparr>)],
        calls = [CallInsertOne (marshal (ann\<lparr>ID := []\<rparr>)),
                 CallFindOne [(''_id'', OID 0x650000000000000000000001)]]\<rparr>)"
    by (simp add: post_employee_parsed Params_request m InsertOne_def FindOne_def issue_def
        refetch_down_def quiet_def no_store_def Decode_def Let_def)
  have b: "fst (post_employee quiet (request (params_of []) (Inr guess)) no_store) =
      JSON (JEmployee \<lparr>ID = Hex 0x650000000000000000000001, Name = ''Ann'',
                        Salary = 0x408F400000000000, Age = 0x403E000000000000\<rparr>)
        (Status 201 (request (params_of []) (Inr guess)))"
    by (simp add: post_employee_parsed Params_request m' InsertOne_def FindOne_def issue_def
        quiet_def no_store_def Decode_def Let_def matches_def decode_elem_def lower_ascii_def
        new_Employee_def)
  have h: "Hex 0x650000000000000000000001 = ''650000000000000000000001''"
    by code_simp
  have g: "ID guess = ''650000000000000000000001''"
    by (simp add: guess_def)
  show ?thesis
    by (simp add: a b g h status_simps body_simps new_Employee_def)
qed

text \<open>
  C2, amended. For a request body the create handler accepts, the document handed to the
  store has no identifier (it is the first store call of the handler), and the response and
  the store are the same whatever identifier the client supplied. When neither the insert
  nor the re-fetch fails and the generated identifier is not in the collection yet, the
  answer is 201 with the record of the request under the generated identifier, written as
  24 hex characters, and that document is what the collection gains.
\<close>

theorem create_discards_client_id:
  assumes "parsed c = Inr e"
  shows "map_of (marshal (e\<lparr>ID := []\<rparr>)) ''_id'' = None \<and>
         calls (snd (post_employee drv c w)) ! length (calls w) =
           CallInsertOne (marshal (e\<lparr>ID := []\<rparr>)) \<and>
         fst (post_employee drv (c\<lparr>parsed := Inr (e\<lparr>ID := x\<rparr>)\<rparr>) w) =
           (fst (post_employee drv c w))\<lparr>parsed := Inr (e\<lparr>ID := x\<rparr>)\<rparr> \<and>
         snd (post_employee drv (c\<lparr>parsed := Inr (e\<lparr>ID := x\<rparr>)\<rparr>) w) =
           snd (post_employee drv c w) \<and>
         (insert_fails drv = None \<and> findone_fails drv = None \<and>
          (\<forall>d\<in>set (docs w). map_of d ''_id'' \<noteq> Some (OID (NewObjectID drv))) \<longrightarrow>
            status (fst (post_employee drv c w)) = 201 \<and>
            body (fst (post_employee drv c w)) =
              JSONBody (JEmployee \<lparr>ID = Hex (NewObjectID drv), Name = Name e,
                                   Salary = Salary e, Age = Age e\<rparr>) \<and>
            length (Hex (NewObjectID drv)) = 24 \<and>
            docs (snd (post_employee drv c w)) =
              docs w @ [(''_id'', OID (NewObjectID drv)) # marshal (e\<lparr>ID := []\<rparr>)])"
proof (intro conjI impI)
  show "map_of (marshal (e\<lparr>ID := []\<rparr>)) ''_id'' = None"
    by (rule marshal_no_id)
  show "calls (snd (post_employee drv c w)) ! length (calls w) =
          CallInsertOne (marshal (e\<lparr>ID := []\<rparr>))"
  proof (cases "InsertOne drv (marshal (e\<lparr>ID := []\<rparr>)) w")
    case (Pair r w')
    from InsertOne_calls [of drv "marshal (e\<lparr>ID := []\<rparr>)" w] Pair
    have c: "calls w' = calls w @ [CallInsertOne (marshal (e\<lparr>ID := []\<rparr>))]"
      by simp
    show ?thesis
      by (cases r) (simp_all add: post_employee_parsed [OF assms] Pair c FindOne_calls nth_append)
  qed
  have px: "parsed (c\<lparr>parsed := Inr (e\<lparr>ID := x\<rparr>)\<rparr>) = Inr (e\<lparr>ID := x\<rparr>)"
    by simp
  show "fst (post_employee drv (c\<lparr>parsed := Inr (e\<lparr>ID := x\<rparr>)\<rparr>) w) =
          (fst (post_employee drv c w))\<lparr>parsed := Inr (e\<lparr>ID := x\<rparr>)\<rparr>"
    by (simp add: post_employee_parsed [OF assms] post_employee_parsed [OF px]
        Status_def SendString_def JSON_def split: prod.splits sum.splits)
  show "snd (post_employee drv (c\<lparr>parsed := Inr (e\<lparr>ID := x\<rparr>)\<rparr>) w) =
          snd (post_employee drv c w)"
    by (simp add: post_employee_parsed [OF assms] post_employee_parsed [OF px]
        split: prod.splits sum.splits)
next
  assume a: "insert_fails drv = None \<and> findone_fails drv = None \<and>
             (\<forall>d\<in>set (docs w). map_of d ''_id'' \<noteq> Some (OID (NewObjectID drv)))"
  have ins: "InsertOne drv (marshal (e\<lparr>ID := []\<rparr>)) w =
           (Inr (OID (NewObjectID drv)),
            \<lparr>docs = docs w @ [(''_id'', OID (NewObjectID drv)) # marshal (e\<lparr>ID := []\<rparr>)],
             calls = calls w @ [CallInsertOne (marshal (e\<lparr>ID := []\<rparr>))]\<rparr>)"
    using a by (intro InsertOne_fresh marshal_no_id) simp_all
  have fnd: "FindOne drv [(''_id'', OID (NewObjectID drv))]
               \<lparr>docs = docs w @ [(''_id'', OID (NewObjectID drv)) # marshal (e\<lparr>ID := []\<rparr>)],
                calls = calls w @ [CallInsertOne (marshal (e\<lparr>ID := []\<rparr>))]\<rparr> =
             (SingleDoc ((''_id'', OID (NewObjectID drv)) # marshal (e\<lparr>ID := []\<rparr>)),
              \<lparr>docs = docs w @ [(''_id'', OID (NewObjectID drv)) # marshal (e\<lparr>ID := []\<rparr>)],
               calls = (calls w @ [CallInsertOne (marshal (e\<lparr>ID := []\<rparr>))]) @
                       [CallFindOne [(''_id'', OID (NewObjectID drv))]]\<rparr>)"
    using a by (intro FindOne_inserted) simp_all
  have post: "post_employee drv c w =
      (JSON (JEmployee \<lparr>ID = Hex (NewObjectID drv), Name = Name e,
                        Salary = Salary e, Age = Age e\<rparr>) (Status 201 c),
       \<lparr>docs = docs w @ [(''_id'', OID (NewObjectID drv)) # marshal (e\<lparr>ID := []\<rparr>)],
        calls = (calls w @ [CallInsertOne (marshal (e\<lparr>ID := []\<rparr>))]) @
                [CallFindOne [(''_id'', OID (NewObjectID drv))]]\<rparr>)"
    by (simp only: post_employee_parsed [OF assms] ins fnd prod.case sum.case fst_conv snd_conv
        Decode_def SingleResult.case Unmarshal_stored)
  show "status (fst (post_employee drv c w)) = 201"
    by (simp add: post status_simps)
  show "body (fst (post_employee drv c w)) =
          JSONBody (JEmployee \<lparr>ID = Hex (NewObjectID drv), Name = Name e,
                               Salary = Salary e, Age = Age e\<rparr>)"
    by (simp add: post body_simps)
  show "length (Hex (NewObjectID drv)) = 24"
    by (rule length_Hex)
  show "docs (snd (post_employee drv c w)) =
          docs w @ [(''_id'', OID (NewObjectID drv)) # marshal (e\<lparr>ID := []\<rparr>)]"
    by (simp add: post)
qed

theorem create_discards_client_id_witness:
  "parsed (request (params_of []) (Inr ann)) = Inr ann \<and>
   ID ann = ''abc'' \<and>
   calls (snd (post_employee quiet (request (params_of []) (Inr ann)) no_store)) ! 0 =
     CallInsertOne [(''name'', String ''Ann''), (''salary'', Double 0x408F400000000000),
                    (''age'', Double 0x403E000000000000)] \<and>
   status (fst (post_employee quiet (request (params_of []) (Inr ann)) no_store)) = 201 \<and>
   body (fst (post_employee quiet (request (params_of []) (Inr ann)) no_store)) =
     JSONBody (JEmployee \<lparr>ID = ''650000000000000000000001'', Name = ''Ann'',
                          Salary = 0x408F400000000000, Age = 0x403E000000000000\<rparr>)"
proof -
  have p: "parsed (request (params_of []) (Inr ann)) = Inr ann"
    by (simp add: Params_request)
  have q: "insert_fails quiet = None \<and> findone_fails quiet = None \<and>
           (\<forall>d\<in>set (docs no_store). map_of d ''_id'' \<noteq> Some (OID (NewObjectID quiet)))"
    by (simp add: quiet_def no_store_def)
  have c0: "length (calls no_store) = 0"
    by (simp add: no_store_def)
  note t = create_discards_client_id [OF p, of quiet no_store "[]"]
  from t have t1: "calls (snd (post_employee quiet (request (params_of []) (Inr ann)) no_store)) !
                     length (calls no_store) = CallInsertOne (marshal (ann\<lparr>ID := []\<rparr>))"
    by blast
  from t q have t2:
    "status (fst (post_employee quiet (request (params_of []) (Inr ann)) no_store)) = 201"
    by blast
  from t q have t3:
    "body (fst (post_employee quiet (request (params_of []) (Inr ann)) no_store)) =
       JSONBody (JEmployee \<lparr>ID = Hex (NewObjectID quiet), Name = Name ann,
                            Salary = Salary ann, Age = Age ann\<rparr>)"
    by blast
  show ?thesis
    using p t1 t2 t3 by (simp add: Hex_quiet c0 marshal_def ann_def)
qed

subsection \<open>List\<close>

text \<open>Whenever \<^verbatim>\<open>cursor.All\<close> fails, the handler writes three times.\<close>

lemma get_employees_All_fails:
  assumes "Find drv [([], Null)] w = (Inr cursor, w')" and "All cursor [] = (Some err, es)"
  shows "writes (fst (get_employees drv c w)) =
           writes c @ [WriteStatus 500, WriteSendString (ErrorText err), WriteJSON (JEmployees es)]"
  using assms by (simp add: get_employees_def Let_def writes_simps)

text \<open>
  C1 fails on the code. On a collection with a document that does not decode, the list
  handler writes the status 500 and the error text, and then goes on to write the JSON of
  the slice it has, here the empty array, over the error text: the response has three
  writes, not two, and its body is the array.
\<close>

theorem list_decode_failure_falls_through:
  "writes (fst (get_employees quiet get_request mistyped_store)) =
     [WriteStatus 500, WriteSendString (ErrorText (DecodeError ''name'')),
      WriteJSON (JEmployees [])] \<and>
   status (fst (get_employees quiet get_request mistyped_store)) = 500 \<and>
   body (fst (get_employees quiet get_request mistyped_store)) = JSONBody (JEmployees [])"
  by (simp add: get_employees_def Find_def issue_def quiet_def mistyped_store_def matches_def
      All_def decode_elem_def lower_ascii_def new_Employee_def get_request_def request_def
      Status_def SendString_def JSON_def Let_def)

end
